theory Spec2Isabelle
  imports Main
begin

section \<open>Values and diagnostics of the plugin framework\<close>

text \<open>
  The provider is written against the Terraform plugin framework. Its attribute values
  are three-valued: a \<open>types.String\<close> or \<open>types.Bool\<close> is null, unknown or known.
  \<open>ValueString\<close> and \<open>ValueBool\<close> give the zero value for a null or unknown attribute.
\<close>

datatype tfstring = StringNull | StringUnknown | StringValue string

datatype tfbool = BoolNull | BoolUnknown | BoolValue bool

fun String_IsNull :: "tfstring \<Rightarrow> bool" where
  "String_IsNull StringNull = True"
| "String_IsNull StringUnknown = False"
| "String_IsNull (StringValue s) = False"

fun String_IsUnknown :: "tfstring \<Rightarrow> bool" where
  "String_IsUnknown StringNull = False"
| "String_IsUnknown StringUnknown = True"
| "String_IsUnknown (StringValue s) = False"

fun ValueString :: "tfstring \<Rightarrow> string" where
  "ValueString StringNull = []"
| "ValueString StringUnknown = []"
| "ValueString (StringValue s) = s"

fun Bool_IsNull :: "tfbool \<Rightarrow> bool" where
  "Bool_IsNull BoolNull = True"
| "Bool_IsNull BoolUnknown = False"
| "Bool_IsNull (BoolValue b) = False"

fun ValueBool :: "tfbool \<Rightarrow> bool" where
  "ValueBool BoolNull = False"
| "ValueBool BoolUnknown = False"
| "ValueBool (BoolValue b) = b"

text \<open>
  A diagnostic has a severity, an optional attribute path, a summary (its title) and a
  detail (its body). \<open>Append\<close> adds a diagnostic unless an equal one is already in the
  collection, as the framework's \<open>Diagnostics.Append\<close> does; \<open>AddError\<close> and
  \<open>AddAttributeError\<close> build an error diagnostic and append it.
\<close>

datatype severity = SeverityError | SeverityWarning

record diagnostic =
  Severity :: severity
  Path :: "string option"
  Summary :: string
  Detail :: string

type_synonym diagnostics = "diagnostic list"

definition Append :: "diagnostics \<Rightarrow> diagnostic \<Rightarrow> diagnostics" where
  "Append ds d = (if d \<in> set ds then ds else ds @ [d])"

definition AppendAll :: "diagnostics \<Rightarrow> diagnostics \<Rightarrow> diagnostics" where
  "AppendAll ds new = foldl Append ds new"

definition AddError :: "diagnostics \<Rightarrow> string \<Rightarrow> string \<Rightarrow> diagnostics" where
  "AddError ds summary detail =
     Append ds \<lparr>Severity = SeverityError, Path = None, Summary = summary, Detail = detail\<rparr>"

definition AddAttributeError ::
  "diagnostics \<Rightarrow> string \<Rightarrow> string \<Rightarrow> string \<Rightarrow> diagnostics" where
  "AddAttributeError ds root summary detail =
     Append ds \<lparr>Severity = SeverityError, Path = Some root, Summary = summary, Detail = detail\<rparr>"

definition HasError :: "diagnostics \<Rightarrow> bool" where
  "HasError ds = list_ex (\<lambda>d. Severity d = SeverityError) ds"

text \<open>
  \<open>reports ds summary detail\<close>: the collection holds an error with this summary and this
  detail, whatever its attribute path.
\<close>

definition reports :: "diagnostics \<Rightarrow> string \<Rightarrow> string \<Rightarrow> bool" where
  "reports ds summary detail =
     list_ex (\<lambda>d. Severity d = SeverityError \<and> Summary d = summary \<and> Detail d = detail) ds"

text \<open>
  A Go call that dereferences a nil pointer panics and never returns; every operation
  below either panics or returns its response.
\<close>

datatype 'a outcome = Panic | Returned 'a

section \<open>The remote API client (go-mastodon)\<close>

text \<open>
  The client library is an external collaborator. Its records are modelled with the
  fields the provider reads; the result of a remote call is a parameter of each
  operation, a Go pair of a pointer (\<open>None\<close> is nil) and an error (\<open>None\<close> is nil, \<open>Some e\<close>
  carries the text of \<open>err.Error()\<close>).
\<close>

record Config =
  Server :: string
  Config_ClientID :: string
  Config_ClientSecret :: string
  Config_AccessToken :: string

datatype Client = NewClient Config

record mastodon_Account =
  Account_ID :: string
  Acct :: string
  Account_DisplayName :: string
  Account_Note :: string
  Account_Locked :: bool
  Account_Bot :: bool

record mastodon_Status =
  Status_ID :: string
  Status_CreatedAt :: string
  Status_Account :: mastodon_Account
  Status_Content :: string
  Status_Visibility :: string
  Status_Sensitive :: bool

record Toot =
  Toot_Status :: string
  Toot_Visibility :: string
  Toot_Sensitive :: bool

text \<open>
  What the provider hands to an adapter's Configure: nothing (an untyped nil), a pointer
  to a client (possibly a nil pointer), or a value of some other type, of which only
  the name of the type is used.
\<close>

datatype ProviderData = NilData | ClientData "Client option" | OtherData string

section \<open>Provider root: Configure (provider.go)\<close>

record MastodonProviderModel =
  Host :: tfstring
  ClientID :: tfstring
  ClientSecret :: tfstring
  Email :: tfstring
  Password :: tfstring
  AccessToken :: tfstring

text \<open>\<open>os.Getenv\<close>: the value of a variable, the empty string when it is not set.\<close>

type_synonym environ = "string \<Rightarrow> string"

text \<open>
  Every response of the framework carries the diagnostics collected so far; the
  provider's adds the client handed to the adapters, an adapter's adds the state.
\<close>

record Response =
  Diagnostics :: diagnostics

record ConfigureResponse = Response +
  DataSourceData :: ProviderData
  ResourceData :: ProviderData

record 'm StateResponse = Response +
  State :: "'m option"

datatype loglevel = Debug | LogError

type_synonym logline = "loglevel \<times> string"

text \<open>
  Each of the six values starts as the environment variable and is replaced by the
  configuration value when that is not null.
\<close>

definition resolve :: "string \<Rightarrow> tfstring \<Rightarrow> string" where
  "resolve from_env v = (if \<not> String_IsNull v then ValueString v else from_env)"

record Resolved =
  host :: string
  client_id :: string
  client_secret :: string
  user_email :: string
  user_password :: string
  access_token :: string

definition resolved :: "MastodonProviderModel \<Rightarrow> environ \<Rightarrow> Resolved" where
  "resolved data getenv =
     \<lparr>host = resolve (getenv ''MASTODON_HOST'') (Host data),
      client_id = resolve (getenv ''MASTODON_CLIENT_ID'') (ClientID data),
      client_secret = resolve (getenv ''MASTODON_CLIENT_SECRET'') (ClientSecret data),
      user_email = resolve (getenv ''MASTODON_USER_EMAIL'') (Email data),
      user_password = resolve (getenv ''MASTODON_USER_PASSWORD'') (Password data),
      access_token = resolve (getenv ''MASTODON_ACCESS_TOKEN'') (AccessToken data)\<rparr>"

definition unknown_detail :: "string \<Rightarrow> string \<Rightarrow> string" where
  "unknown_detail what var =
     ''The provider cannot create the Mastodon API client as there is an unknown configuration value for the Mastodon ''
     @ what @
     ''. Either target apply the source of the value first, set the value statically in the configuration, or use the ''
     @ var @ '' environment variable.''"

definition missing_summary :: string where
  "missing_summary = ''Missing Mastodon Credentials''"

definition missing_host_detail :: string where
  "missing_host_detail =
     ''The provider cannot create the Mastodon API client as the Host is not set.''"

definition missing_client_id_detail :: string where
  "missing_client_id_detail =
     ''The provider cannot create the Mastodon API client as the Client ID is not set.''"

definition missing_client_secret_detail :: string where
  "missing_client_secret_detail =
     ''The provider cannot create the Mastodon API client as the Client Secret is not set.''"

definition missing_credentials_detail :: string where
  "missing_credentials_detail =
     ''The provider cannot create the Mastodon API client as neither the Access Token or the Username and Password fields are set.''"

text \<open>
  The checks of Configure before any remote call, in the order of the source. Each one
  adds its diagnostic and goes on to the next: none returns.
\<close>

definition check_host :: "MastodonProviderModel \<Rightarrow> Resolved \<Rightarrow> diagnostics \<Rightarrow> diagnostics" where
  "check_host data r ds =
     (let ds = (if String_IsUnknown (Host data)
                then AddAttributeError ds ''host'' ''Unknown Mastodon API Host''
                       (unknown_detail ''API host'' ''MASTODON_HOST'')
                else ds)
      in if host r = []
         then AddAttributeError ds ''user-access-token'' missing_summary missing_host_detail
         else ds)"

definition check_client_id :: "MastodonProviderModel \<Rightarrow> Resolved \<Rightarrow> diagnostics \<Rightarrow> diagnostics" where
  "check_client_id data r ds =
     (let ds = (if String_IsUnknown (ClientID data)
                then AddAttributeError ds ''client-id'' ''Unknown Mastodon Client ID''
                       (unknown_detail ''Client ID'' ''MASTODON_CLIENT_ID'')
                else ds)
      in if client_id r = []
         then AddAttributeError ds ''user-access-token'' missing_summary missing_client_id_detail
         else ds)"

definition check_client_secret :: "MastodonProviderModel \<Rightarrow> Resolved \<Rightarrow> diagnostics \<Rightarrow> diagnostics" where
  "check_client_secret data r ds =
     (let ds = (if String_IsUnknown (ClientSecret data)
                then AddAttributeError ds ''client-secret'' ''Unknown Mastodon Client Secret''
                       (unknown_detail ''Client Secret'' ''MASTODON_CLIENT_SECRET'')
                else ds)
      in if client_secret r = []
         then AddAttributeError ds ''user-access-token'' missing_summary missing_client_secret_detail
         else ds)"

definition check_email :: "MastodonProviderModel \<Rightarrow> diagnostics \<Rightarrow> diagnostics" where
  "check_email data ds =
     (if String_IsUnknown (Email data)
      then AddAttributeError ds ''user-email'' ''Unknown Mastodon User Email''
             (unknown_detail ''User Email'' ''MASTODON_USER_EMAIL'')
      else ds)"

definition check_password :: "MastodonProviderModel \<Rightarrow> diagnostics \<Rightarrow> diagnostics" where
  "check_password data ds =
     (if String_IsUnknown (Password data)
      then AddAttributeError ds ''user-password'' ''Unknown Mastodon User Password''
             (unknown_detail ''User Password'' ''MASTODON_USER_PASSWORD'')
      else ds)"

definition check_access_token :: "MastodonProviderModel \<Rightarrow> diagnostics \<Rightarrow> diagnostics" where
  "check_access_token data ds =
     (if String_IsUnknown (AccessToken data)
      then AddAttributeError ds ''user-access-token'' ''Unknown Mastodon User Password''
             (unknown_detail ''User Password'' ''MASTODON_USER_PASSWORD'')
      else ds)"

definition no_credentials :: "Resolved \<Rightarrow> bool" where
  "no_credentials r = (access_token r = [] \<and> (user_email r = [] \<or> user_password r = []))"

definition check_credentials :: "Resolved \<Rightarrow> diagnostics \<Rightarrow> diagnostics" where
  "check_credentials r ds =
     (if no_credentials r
      then AddAttributeError ds ''user-access-token'' missing_summary missing_credentials_detail
      else ds)"

definition validate ::
  "diagnostics \<Rightarrow> MastodonProviderModel \<Rightarrow> Resolved \<Rightarrow> diagnostics \<Rightarrow> diagnostics" where
  "validate get_diags data r ds =
     check_credentials r
       (check_access_token data
         (check_password data
           (check_email data
             (check_client_secret data r
               (check_client_id data r
                 (check_host data r (AppendAll ds get_diags)))))))"

text \<open>
  The configuration of the client: the access token is part of it only when one
  resolved; the email and the password are never part of it.
\<close>

definition client_config :: "Resolved \<Rightarrow> Config" where
  "client_config r =
     (if access_token r \<noteq> []
      then \<lparr>Server = host r, Config_ClientID = client_id r,
            Config_ClientSecret = client_secret r, Config_AccessToken = access_token r\<rparr>
      else \<lparr>Server = host r, Config_ClientID = client_id r,
            Config_ClientSecret = client_secret r, Config_AccessToken = []\<rparr>)"

text \<open>
  Configure. \<open>get_diags\<close> and \<open>data\<close> are what \<open>req.Config.Get\<close> returns, \<open>resp\<close> is the
  response the framework hands in, and \<open>GetAccountCurrentUser\<close> is the remote call of
  the client. The result is the response and the lines logged.

  After the remote call the source logs \<open>user.Acct\<close> whether or not the call reported an
  error: with a nil \<open>user\<close> that read panics. The fields the source then attaches to
  its logging context change that local context only and are left out; the branch that
  attaches them is kept, since its last case adds a diagnostic.
\<close>

definition Configure ::
  "diagnostics \<Rightarrow> MastodonProviderModel \<Rightarrow> environ \<Rightarrow>
   (Client \<Rightarrow> mastodon_Account option \<times> string option) \<Rightarrow>
   ConfigureResponse \<Rightarrow> (ConfigureResponse \<times> logline list) outcome" where
  "Configure get_diags data getenv GetAccountCurrentUser resp =
     (let log = [(Debug, ''mastodon_provider configure'')];
          r = resolved data getenv;
          resp = resp\<lparr>Diagnostics := validate get_diags data r (Diagnostics resp)\<rparr>
      in if HasError (Diagnostics resp) then Returned (resp, log)
         else
           let log = log @ [(Debug, if access_token r \<noteq> []
                                    then ''mastodon_provider configure with access token''
                                    else ''mastodon_provider configure without access token'')];
               c = NewClient (client_config r);
               (user, err) = GetAccountCurrentUser c;
               (resp, log) =
                 (case err of
                    Some e \<Rightarrow>
                      (resp\<lparr>Diagnostics := AddError (Diagnostics resp)
                          ''Mastodon GetAccountCurrentUser Failed, API is not usable.'' e\<rparr>,
                       log @ [(LogError, ''GetAccountCurrentUser Error: '' @ e)])
                  | None \<Rightarrow> (resp, log))
           in case user of
                None \<Rightarrow> Panic
              | Some u \<Rightarrow>
                  let log = log @ [(Debug, ''mastodon_provider current user: '' @ Acct u)];
                      resp =
                        (if access_token r \<noteq> [] then resp
                         else if user_email r \<noteq> [] \<and> user_password r \<noteq> [] then resp
                         else resp\<lparr>Diagnostics := AddAttributeError (Diagnostics resp)
                                ''user-access-token'' missing_summary missing_credentials_detail\<rparr>)
                  in if HasError (Diagnostics resp) then Returned (resp, log)
                     else Returned (resp\<lparr>DataSourceData := ClientData (Some c),
                                         ResourceData := ClientData (Some c)\<rparr>, log))"

section \<open>Account data source\<close>

record AccountDataSource =
  AccountDataSource_client :: "Client option"

record AccountDataSourceModel =
  Username :: tfstring
  AccountModel_Id :: tfstring
  DisplayName :: tfstring
  Note :: tfstring
  Locked :: tfbool
  Bot :: tfbool

text \<open>
  Configure of the adapter: nothing is done when no provider data is handed in; a value
  that is not a client pointer is reported; a client pointer is stored.
\<close>

definition AccountDataSource_Configure ::
  "AccountDataSource \<Rightarrow> ProviderData \<Rightarrow> Response \<Rightarrow> AccountDataSource \<times> Response" where
  "AccountDataSource_Configure d provider_data resp =
     (case provider_data of
        NilData \<Rightarrow> (d, resp)
      | OtherData ty \<Rightarrow>
          (d, resp\<lparr>Diagnostics := AddError (Diagnostics resp)
                ''Unexpected Data Source Configure Type''
                (''Expected *mastodon.Client, got: '' @ ty
                 @ ''. Please report this issue to the provider developers.'')\<rparr>)
      | ClientData client \<Rightarrow> (d\<lparr>AccountDataSource_client := client\<rparr>, resp))"

text \<open>
  Read. \<open>get_diags\<close> and \<open>data\<close> are what \<open>req.Config.Get\<close> returns, \<open>AccountLookup\<close> is
  the remote call of the configured client. Writing the model into the state
  (\<open>resp.State.Set\<close>) is taken to succeed without diagnostics.
\<close>

definition AccountDataSource_Read ::
  "diagnostics \<Rightarrow> AccountDataSourceModel \<Rightarrow>
   (string \<Rightarrow> mastodon_Account option \<times> string option) \<Rightarrow>
   AccountDataSourceModel StateResponse \<Rightarrow> AccountDataSourceModel StateResponse outcome" where
  "AccountDataSource_Read get_diags data AccountLookup resp =
     (let resp = resp\<lparr>Diagnostics := AppendAll (Diagnostics resp) get_diags\<rparr>
      in if HasError (Diagnostics resp) then Returned resp
         else
           (case AccountLookup (ValueString (Username data)) of
              (_, Some e) \<Rightarrow>
                Returned (resp\<lparr>Diagnostics := AddError (Diagnostics resp)
                    ''Failed to lookup account'' (''Failed to lookup account: '' @ e)\<rparr>)
            | (None, None) \<Rightarrow> Panic
            | (Some account, None) \<Rightarrow>
                Returned (resp\<lparr>State := Some (data\<lparr>
                    AccountModel_Id := StringValue (Account_ID account),
                    DisplayName := StringValue (Account_DisplayName account),
                    Note := StringValue (Account_Note account),
                    Locked := BoolValue (Account_Locked account),
                    Bot := BoolValue (Account_Bot account)\<rparr>)\<rparr>)))"

section \<open>Post resource\<close>

record PostResource =
  PostResource_client :: "Client option"

record PostResourceModel =
  PostModel_Id :: tfstring
  CreatedAt :: tfstring
  Account :: tfstring
  Content :: tfstring
  Visibility :: tfstring
  Sensitive :: tfbool
  PreserveOnDestroy :: tfbool

definition PostResource_Configure ::
  "PostResource \<Rightarrow> ProviderData \<Rightarrow> Response \<Rightarrow> PostResource \<times> Response" where
  "PostResource_Configure r provider_data resp =
     (case provider_data of
        NilData \<Rightarrow> (r, resp)
      | OtherData ty \<Rightarrow>
          (r, resp\<lparr>Diagnostics := AddError (Diagnostics resp)
                ''Unexpected Resource Configure Type''
                (''Expected *mastodon.Client, got: '' @ ty
                 @ ''. Please report this issue to the provider developers.'')\<rparr>)
      | ClientData client \<Rightarrow> (r\<lparr>PostResource_client := client\<rparr>, resp))"

text \<open>
  The three operations that receive a status from the server copy it into the model
  in the same way; the content goes through \<open>Sanitize\<close>, the sanitizer of an empty
  bluemonday policy. That library is not part of the repository: \<open>Sanitize\<close> is a
  parameter.
\<close>

definition toot_of :: "PostResourceModel \<Rightarrow> Toot" where
  "toot_of data =
     \<lparr>Toot_Status = ValueString (Content data),
      Toot_Visibility = ValueString (Visibility data),
      Toot_Sensitive = ValueBool (Sensitive data)\<rparr>"

definition store_post ::
  "(string \<Rightarrow> string) \<Rightarrow> mastodon_Status \<Rightarrow> PostResourceModel \<Rightarrow> PostResourceModel" where
  "store_post Sanitize post data =
     data\<lparr>PostModel_Id := StringValue (Status_ID post),
          CreatedAt := StringValue (Status_CreatedAt post),
          Account := StringValue (Account_ID (Status_Account post)),
          Content := StringValue (Sanitize (Status_Content post)),
          Visibility := StringValue (Status_Visibility post),
          Sensitive := BoolValue (Status_Sensitive post)\<rparr>"

definition Create ::
  "(string \<Rightarrow> string) \<Rightarrow> diagnostics \<Rightarrow> PostResourceModel \<Rightarrow>
   (Toot \<Rightarrow> mastodon_Status option \<times> string option) \<Rightarrow>
   PostResourceModel StateResponse \<Rightarrow> PostResourceModel StateResponse outcome" where
  "Create Sanitize get_diags data PostStatus resp =
     (let resp = resp\<lparr>Diagnostics := AppendAll (Diagnostics resp) get_diags\<rparr>
      in if HasError (Diagnostics resp) then Returned resp
         else
           (case PostStatus (toot_of data) of
              (_, Some e) \<Rightarrow>
                Returned (resp\<lparr>Diagnostics := AddError (Diagnostics resp)
                    ''Client Error'' (''Unable to create post, got error: '' @ e)\<rparr>)
            | (None, None) \<Rightarrow> Panic
            | (Some post, None) \<Rightarrow>
                Returned (resp\<lparr>State := Some (store_post Sanitize post data)\<rparr>)))"

text \<open>
  Read decodes the prior state, fetches the status by the stored identifier, and on
  success also fills a null \<open>preserve_on_destroy\<close> with false. On an error of the fetch
  it adds the diagnostic and returns: the state of the response is not written.
\<close>

definition Read ::
  "(string \<Rightarrow> string) \<Rightarrow> diagnostics \<Rightarrow> PostResourceModel \<Rightarrow>
   (string \<Rightarrow> mastodon_Status option \<times> string option) \<Rightarrow>
   PostResourceModel StateResponse \<Rightarrow> PostResourceModel StateResponse outcome" where
  "Read Sanitize get_diags data GetStatus resp =
     (let resp = resp\<lparr>Diagnostics := AppendAll (Diagnostics resp) get_diags\<rparr>
      in if HasError (Diagnostics resp) then Returned resp
         else
           (case GetStatus (ValueString (PostModel_Id data)) of
              (_, Some e) \<Rightarrow>
                Returned (resp\<lparr>Diagnostics := AddError (Diagnostics resp)
                    ''Client Error'' (''Unable to read post, got error: '' @ e)\<rparr>)
            | (None, None) \<Rightarrow> Panic
            | (Some post, None) \<Rightarrow>
                (let data = store_post Sanitize post data;
                     data = (if Bool_IsNull (PreserveOnDestroy data)
                             then data\<lparr>PreserveOnDestroy := BoolValue False\<rparr> else data)
                 in Returned (resp\<lparr>State := Some data\<rparr>))))"

definition Update ::
  "(string \<Rightarrow> string) \<Rightarrow> diagnostics \<Rightarrow> PostResourceModel \<Rightarrow>
   (Toot \<Rightarrow> string \<Rightarrow> mastodon_Status option \<times> string option) \<Rightarrow>
   PostResourceModel StateResponse \<Rightarrow> PostResourceModel StateResponse outcome" where
  "Update Sanitize get_diags data UpdateStatus resp =
     (let resp = resp\<lparr>Diagnostics := AppendAll (Diagnostics resp) get_diags\<rparr>
      in if HasError (Diagnostics resp) then Returned resp
         else
           (case UpdateStatus (toot_of data) (ValueString (PostModel_Id data)) of
              (_, Some e) \<Rightarrow>
                Returned (resp\<lparr>Diagnostics := AddError (Diagnostics resp)
                    ''Client Error'' (''Unable to read post, got error: '' @ e)\<rparr>)
            | (None, None) \<Rightarrow> Panic
            | (Some post, None) \<Rightarrow>
                Returned (resp\<lparr>State := Some (store_post Sanitize post data)\<rparr>)))"

text \<open>
  Delete returns the response and the identifiers it passed to the remote delete call,
  in order: the list is the record of the remote calls made.
\<close>

definition Delete ::
  "diagnostics \<Rightarrow> PostResourceModel \<Rightarrow> (string \<Rightarrow> string option) \<Rightarrow>
   PostResourceModel StateResponse \<Rightarrow> PostResourceModel StateResponse \<times> string list" where
  "Delete get_diags data DeleteStatus resp =
     (let resp = resp\<lparr>Diagnostics := AppendAll (Diagnostics resp) get_diags\<rparr>
      in if HasError (Diagnostics resp) then (resp, [])
         else if ValueBool (PreserveOnDestroy data) then (resp, [])
         else
           (let post_id = ValueString (PostModel_Id data)
            in case DeleteStatus post_id of
                 Some e \<Rightarrow>
                   (resp\<lparr>Diagnostics := AddError (Diagnostics resp)
                       ''Client Error'' (''Unable to delete post, got error: '' @ e)\<rparr>, [post_id])
               | None \<Rightarrow> (resp, [post_id])))"

section \<open>The identity function\<close>

text \<open>
  \<open>args_error\<close>, \<open>username\<close> and \<open>server\<close> are what \<open>req.Arguments.Get\<close> returns: the
  framework's error for a wrong count or type of arguments, and the two strings it
  decoded. Setting a string result is taken to succeed.
\<close>

record RunResponse =
  Error :: "string option"
  Result :: tfstring

definition Run :: "string option \<Rightarrow> string \<Rightarrow> string \<Rightarrow> RunResponse \<Rightarrow> RunResponse" where
  "Run args_error username server resp =
     (let resp = resp\<lparr>Error := args_error\<rparr>
      in if Error resp \<noteq> None then resp
         else resp\<lparr>Result := StringValue (''@'' @ username @ ''@'' @ server), Error := None\<rparr>)"

section \<open>Notions used in the statements\<close>

text \<open>No configuration value is unknown.\<close>

definition all_known :: "MastodonProviderModel \<Rightarrow> bool" where
  "all_known data =
     (\<not> String_IsUnknown (Host data) \<and> \<not> String_IsUnknown (ClientID data) \<and>
      \<not> String_IsUnknown (ClientSecret data) \<and> \<not> String_IsUnknown (Email data) \<and>
      \<not> String_IsUnknown (Password data) \<and> \<not> String_IsUnknown (AccessToken data))"

text \<open>The two lines logged before the validating fetch.\<close>

definition configure_log :: "Resolved \<Rightarrow> logline list" where
  "configure_log r =
     [(Debug, ''mastodon_provider configure''),
      (Debug, if access_token r \<noteq> []
              then ''mastodon_provider configure with access token''
              else ''mastodon_provider configure without access token'')]"

text \<open>The state an operation leaves in its response; none when it panics.\<close>

definition state_of :: "'m StateResponse outcome \<Rightarrow> 'm option" where
  "state_of out = (case out of Panic \<Rightarrow> None | Returned resp \<Rightarrow> State resp)"

section \<open>Inputs used as examples\<close>

definition null_config :: MastodonProviderModel where
  "null_config =
     \<lparr>Host = StringNull, ClientID = StringNull, ClientSecret = StringNull,
      Email = StringNull, Password = StringNull, AccessToken = StringNull\<rparr>"

definition token_env :: environ where
  "token_env =
     (\<lambda>_. [])(''MASTODON_HOST'' := ''https://mastodon.example'',
              ''MASTODON_CLIENT_ID'' := ''id'',
              ''MASTODON_CLIENT_SECRET'' := ''secret'',
              ''MASTODON_ACCESS_TOKEN'' := ''token'')"

definition unset_env :: environ where
  "unset_env = (\<lambda>_. [])"

definition example_user :: mastodon_Account where
  "example_user =
     \<lparr>Account_ID = ''1'', Acct = ''user'', Account_DisplayName = ''User'',
      Account_Note = [], Account_Locked = False, Account_Bot = True\<rparr>"

definition accepts :: "Client \<Rightarrow> mastodon_Account option \<times> string option" where
  "accepts c = (Some example_user, None)"

definition rejects :: "Client \<Rightarrow> mastodon_Account option \<times> string option" where
  "rejects c = (None, Some ''bad authorization: 401 Unauthorized'')"

definition empty_response :: ConfigureResponse where
  "empty_response = \<lparr>Diagnostics = [], DataSourceData = NilData, ResourceData = NilData\<rparr>"

definition rejects_with_account :: "Client \<Rightarrow> mastodon_Account option \<times> string option" where
  "rejects_with_account c = (Some example_user, Some ''bad authorization: 401 Unauthorized'')"

definition example_person :: mastodon_Account where
  "example_person =
     \<lparr>Account_ID = ''2'', Acct = ''user@host'', Account_DisplayName = ''A Person'',
      Account_Note = ''hello'', Account_Locked = False, Account_Bot = False\<rparr>"

definition example_account_data :: AccountDataSourceModel where
  "example_account_data =
     \<lparr>Username = StringValue ''user@host'', AccountModel_Id = StringNull,
      DisplayName = StringNull, Note = StringNull, Locked = BoolNull, Bot = BoolNull\<rparr>"

definition finds_unlocked_bot :: "string \<Rightarrow> mastodon_Account option \<times> string option" where
  "finds_unlocked_bot username = (Some example_user, None)"

definition finds_person :: "string \<Rightarrow> mastodon_Account option \<times> string option" where
  "finds_person username = (Some example_person, None)"

definition lookup_fails :: "string \<Rightarrow> mastodon_Account option \<times> string option" where
  "lookup_fails username = (None, Some ''bad request: 404 Not Found'')"

definition no_state :: "AccountDataSourceModel StateResponse" where
  "no_state = \<lparr>Diagnostics = [], State = None\<rparr>"

definition example_post_state :: PostResourceModel where
  "example_post_state =
     \<lparr>PostModel_Id = StringValue ''110'', CreatedAt = StringValue ''2024-01-01 00:00:00 +0000 UTC'',
      Account = StringValue ''1'', Content = StringValue ''First Test Post'',
      Visibility = StringValue ''public'', Sensitive = BoolValue False,
      PreserveOnDestroy = BoolValue False\<rparr>"

definition prior_state :: "PostResourceModel StateResponse" where
  "prior_state = \<lparr>Diagnostics = [], State = Some example_post_state\<rparr>"

definition status_not_found :: "string \<Rightarrow> mastodon_Status option \<times> string option" where
  "status_not_found status_id = (None, Some ''bad request: 404 Not Found'')"

definition delete_succeeds :: "string \<Rightarrow> string option" where
  "delete_succeeds status_id = None"

definition delete_fails :: "string \<Rightarrow> string option" where
  "delete_fails status_id = Some ''bad request: 403 Forbidden''"

definition example_status :: "string \<Rightarrow> mastodon_Status" where
  "example_status content =
     \<lparr>Status_ID = ''110'', Status_CreatedAt = ''2024-01-01 00:00:00 +0000 UTC'',
      Status_Account = example_user, Status_Content = content,
      Status_Visibility = ''public'', Status_Sensitive = False\<rparr>"

definition echo_post :: "Toot \<Rightarrow> mastodon_Status option \<times> string option" where
  "echo_post toot = (Some (example_status (Toot_Status toot)), None)"

section \<open>Properties\<close>

lemma set_Append: "set (Append ds d) = insert d (set ds)"
  by (auto simp: Append_def)

lemma set_AppendAll: "set (AppendAll ds new) = set ds \<union> set new"
  unfolding AppendAll_def
  by (induction new arbitrary: ds) (auto simp: set_Append)

lemma HasError_iff: "HasError ds \<longleftrightarrow> (\<exists>d \<in> set ds. Severity d = SeverityError)"
  by (simp add: HasError_def list_ex_iff)

lemma reports_iff:
  "reports ds s t \<longleftrightarrow>
     (\<exists>d \<in> set ds. Severity d = SeverityError \<and> Summary d = s \<and> Detail d = t)"
  by (simp add: reports_def list_ex_iff)

lemma set_AddError:
  "set (AddError ds s t) =
     insert \<lparr>Severity = SeverityError, Path = None, Summary = s, Detail = t\<rparr> (set ds)"
  by (simp add: AddError_def set_Append)

lemma set_AddAttributeError:
  "set (AddAttributeError ds p s t) =
     insert \<lparr>Severity = SeverityError, Path = Some p, Summary = s, Detail = t\<rparr> (set ds)"
  by (simp add: AddAttributeError_def set_Append)

lemma HasError_AddError: "HasError (AddError ds s t)"
  by (simp add: HasError_iff set_AddError)

lemma HasError_AddAttributeError: "HasError (AddAttributeError ds p s t)"
  by (simp add: HasError_iff set_AddAttributeError)

lemma HasError_AppendAll: "HasError (AppendAll ds new) \<longleftrightarrow> HasError ds \<or> HasError new"
  by (auto simp: HasError_iff set_AppendAll)

lemma reports_AddError: "reports (AddError ds s t) s t"
  by (simp add: reports_iff set_AddError)

lemma reports_AddAttributeError: "reports (AddAttributeError ds p s t) s t"
  by (simp add: reports_iff set_AddAttributeError)

lemma reports_mono: "set ds \<subseteq> set ds' \<Longrightarrow> reports ds s t \<Longrightarrow> reports ds' s t"
  by (auto simp: reports_iff)

lemma HasError_mono: "set ds \<subseteq> set ds' \<Longrightarrow> HasError ds \<Longrightarrow> HasError ds'"
  by (auto simp: HasError_iff)

lemmas check_defs =
  check_host_def check_client_id_def check_client_secret_def check_email_def
  check_password_def check_access_token_def check_credentials_def

lemma reports_Append: "reports ds s t \<Longrightarrow> reports (Append ds d) s t"
  by (auto simp: reports_iff set_Append)

lemma reports_AddAttributeError_mono:
  "reports ds s t \<Longrightarrow> reports (AddAttributeError ds p s' t') s t"
  by (simp add: AddAttributeError_def reports_Append)

lemma reports_check_host: "reports ds s t \<Longrightarrow> reports (check_host data r ds) s t"
  by (simp add: check_host_def reports_AddAttributeError_mono)

lemma reports_check_client_id: "reports ds s t \<Longrightarrow> reports (check_client_id data r ds) s t"
  by (simp add: check_client_id_def reports_AddAttributeError_mono)

lemma reports_check_client_secret:
  "reports ds s t \<Longrightarrow> reports (check_client_secret data r ds) s t"
  by (simp add: check_client_secret_def reports_AddAttributeError_mono)

lemma reports_check_email: "reports ds s t \<Longrightarrow> reports (check_email data ds) s t"
  by (simp add: check_email_def reports_AddAttributeError_mono)

lemma reports_check_password: "reports ds s t \<Longrightarrow> reports (check_password data ds) s t"
  by (simp add: check_password_def reports_AddAttributeError_mono)

lemma reports_check_access_token:
  "reports ds s t \<Longrightarrow> reports (check_access_token data ds) s t"
  by (simp add: check_access_token_def reports_AddAttributeError_mono)

lemma reports_check_credentials: "reports ds s t \<Longrightarrow> reports (check_credentials r ds) s t"
  by (simp add: check_credentials_def reports_AddAttributeError_mono)

lemmas reports_checks =
  reports_check_host reports_check_client_id reports_check_client_secret reports_check_email
  reports_check_password reports_check_access_token reports_check_credentials

lemma validate_clean:
  assumes "all_known data" "host r \<noteq> []" "client_id r \<noteq> []" "client_secret r \<noteq> []"
    "\<not> no_credentials r"
  shows "validate get_diags data r ds = AppendAll ds get_diags"
  using assms by (simp add: validate_def check_defs all_known_def)

lemma validate_missing_host:
  assumes "host r = []"
  shows "reports (validate get_diags data r ds) missing_summary missing_host_detail"
proof -
  have "reports (check_host data r (AppendAll ds get_diags)) missing_summary missing_host_detail"
    using assms by (simp add: check_host_def reports_AddAttributeError)
  then show ?thesis
    by (simp add: validate_def reports_checks)
qed

lemma validate_missing_client_id:
  assumes "client_id r = []"
  shows "reports (validate get_diags data r ds) missing_summary missing_client_id_detail"
proof -
  have "reports (check_client_id data r (check_host data r (AppendAll ds get_diags)))
          missing_summary missing_client_id_detail"
    using assms by (simp add: check_client_id_def reports_AddAttributeError)
  then show ?thesis
    by (simp add: validate_def reports_checks)
qed

lemma validate_missing_client_secret:
  assumes "client_secret r = []"
  shows "reports (validate get_diags data r ds) missing_summary missing_client_secret_detail"
proof -
  have "reports (check_client_secret data r
          (check_client_id data r (check_host data r (AppendAll ds get_diags))))
          missing_summary missing_client_secret_detail"
    using assms by (simp add: check_client_secret_def reports_AddAttributeError)
  then show ?thesis
    by (simp add: validate_def reports_checks)
qed

lemma validate_missing_credentials:
  assumes "no_credentials r"
  shows "reports (validate get_diags data r ds) missing_summary missing_credentials_detail"
  using assms
  by (simp add: validate_def check_credentials_def reports_AddAttributeError)

lemma reports_HasError: "reports ds s t \<Longrightarrow> HasError ds"
  by (auto simp: reports_iff HasError_iff)

lemma Configure_invalid:
  "HasError (validate get_diags data (resolved data getenv) (Diagnostics resp)) \<Longrightarrow>
   Configure get_diags data getenv GetAccountCurrentUser resp =
     Returned (resp\<lparr>Diagnostics := validate get_diags data (resolved data getenv) (Diagnostics resp)\<rparr>,
               [(Debug, ''mastodon_provider configure'')])"
  by (simp add: Configure_def Let_def)

lemma validated_credentials:
  "\<not> HasError (validate get_diags data r ds) \<Longrightarrow> \<not> no_credentials r"
  using validate_missing_credentials reports_HasError by blast

lemma Configure_fetched:
  assumes "\<not> HasError (validate get_diags data (resolved data getenv) (Diagnostics resp))"
    and "GetAccountCurrentUser (NewClient (client_config (resolved data getenv))) = (Some u, None)"
  shows "Configure get_diags data getenv GetAccountCurrentUser resp =
     Returned (resp\<lparr>Diagnostics := validate get_diags data (resolved data getenv) (Diagnostics resp),
                     DataSourceData := ClientData (Some (NewClient (client_config (resolved data getenv)))),
                     ResourceData := ClientData (Some (NewClient (client_config (resolved data getenv))))\<rparr>,
               configure_log (resolved data getenv)
               @ [(Debug, ''mastodon_provider current user: '' @ Acct u)])"
proof -
  have "\<not> no_credentials (resolved data getenv)"
    using assms(1) by (rule validated_credentials)
  then show ?thesis
    using assms by (auto simp: Configure_def Let_def no_credentials_def configure_log_def)
qed

lemma Configure_fetch_failed_nil:
  assumes "\<not> HasError (validate get_diags data (resolved data getenv) (Diagnostics resp))"
    and "GetAccountCurrentUser (NewClient (client_config (resolved data getenv))) = (None, err)"
  shows "Configure get_diags data getenv GetAccountCurrentUser resp = Panic"
  using assms by (simp add: Configure_def Let_def split: option.splits)

lemma Configure_fetch_failed_account:
  assumes "\<not> HasError (validate get_diags data (resolved data getenv) (Diagnostics resp))"
    and "GetAccountCurrentUser (NewClient (client_config (resolved data getenv))) = (Some u, Some e)"
  shows "Configure get_diags data getenv GetAccountCurrentUser resp =
     Returned (resp\<lparr>Diagnostics :=
                  AddError (validate get_diags data (resolved data getenv) (Diagnostics resp))
                    ''Mastodon GetAccountCurrentUser Failed, API is not usable.'' e\<rparr>,
               configure_log (resolved data getenv)
               @ [(LogError, ''GetAccountCurrentUser Error: '' @ e),
                  (Debug, ''mastodon_provider current user: '' @ Acct u)])"
proof -
  have "\<not> no_credentials (resolved data getenv)"
    using assms(1) by (rule validated_credentials)
  then show ?thesis
    using assms
    by (auto simp: Configure_def Let_def no_credentials_def configure_log_def HasError_AddError)
qed

text \<open>
  Claim C1, as amended. Let \<open>r\<close> be the resolved values. If the response handed in and
  the decoding of the configuration carry no error, no configuration value is unknown,
  host, client id and client secret are not empty, an access token or both email and
  password are present, and the validating fetch of the current user returns an account
  and no error, then Configure succeeds: it adds no diagnostic and stores the client
  for data sources and resources. If host, client id or client secret is empty, or
  neither an access token nor a complete email and password pair is present, Configure
  returns before any remote call with an error, stores no client, and its diagnostics
  hold, for each of these four problems that is present, the error
  \<open>Missing Mastodon Credentials\<close> whose detail names that problem: all of them are
  collected.
\<close>

theorem Configure_credentials:
  assumes r: "r = resolved data getenv"
  shows
  "(\<not> HasError (Diagnostics resp) \<and> \<not> HasError get_diags \<and> all_known data \<and>
    host r \<noteq> [] \<and> client_id r \<noteq> [] \<and> client_secret r \<noteq> [] \<and>
    (access_token r \<noteq> [] \<or> (user_email r \<noteq> [] \<and> user_password r \<noteq> [])) \<and>
    GetAccountCurrentUser (NewClient (client_config r)) = (Some u, None)
    \<longrightarrow>
    \<not> HasError (AppendAll (Diagnostics resp) get_diags) \<and>
    (\<exists>log. Configure get_diags data getenv GetAccountCurrentUser resp =
       Returned (resp\<lparr>Diagnostics := AppendAll (Diagnostics resp) get_diags,
                       DataSourceData := ClientData (Some (NewClient (client_config r))),
                       ResourceData := ClientData (Some (NewClient (client_config r)))\<rparr>, log)))
   \<and>
   (host r = [] \<or> client_id r = [] \<or> client_secret r = [] \<or>
    (access_token r = [] \<and> (user_email r = [] \<or> user_password r = []))
    \<longrightarrow>
    (\<exists>resp'. Configure get_diags data getenv GetAccountCurrentUser resp =
         Returned (resp', [(Debug, ''mastodon_provider configure'')]) \<and>
       HasError (Diagnostics resp') \<and>
       DataSourceData resp' = DataSourceData resp \<and> ResourceData resp' = ResourceData resp \<and>
       (host r = [] \<longrightarrow> reports (Diagnostics resp') missing_summary missing_host_detail) \<and>
       (client_id r = [] \<longrightarrow>
          reports (Diagnostics resp') missing_summary missing_client_id_detail) \<and>
       (client_secret r = [] \<longrightarrow>
          reports (Diagnostics resp') missing_summary missing_client_secret_detail) \<and>
       (access_token r = [] \<and> (user_email r = [] \<or> user_password r = []) \<longrightarrow>
          reports (Diagnostics resp') missing_summary missing_credentials_detail)))"
proof (intro conjI impI)
  assume a: "\<not> HasError (Diagnostics resp) \<and> \<not> HasError get_diags \<and> all_known data \<and>
    host r \<noteq> [] \<and> client_id r \<noteq> [] \<and> client_secret r \<noteq> [] \<and>
    (access_token r \<noteq> [] \<or> (user_email r \<noteq> [] \<and> user_password r \<noteq> [])) \<and>
    GetAccountCurrentUser (NewClient (client_config r)) = (Some u, None)"
  then have nc: "\<not> no_credentials r"
    by (auto simp: no_credentials_def)
  from a nc have v: "validate get_diags data r (Diagnostics resp) = AppendAll (Diagnostics resp) get_diags"
    by (simp add: validate_clean)
  from a show clean: "\<not> HasError (AppendAll (Diagnostics resp) get_diags)"
    by (simp add: HasError_AppendAll)
  from a have f: "GetAccountCurrentUser (NewClient (client_config (resolved data getenv))) = (Some u, None)"
    by (simp add: r)
  have "\<not> HasError (validate get_diags data (resolved data getenv) (Diagnostics resp))"
    using v clean by (simp add: r)
  from Configure_fetched [where GetAccountCurrentUser = GetAccountCurrentUser, OF this f]
  show "\<exists>log. Configure get_diags data getenv GetAccountCurrentUser resp =
       Returned (resp\<lparr>Diagnostics := AppendAll (Diagnostics resp) get_diags,
                       DataSourceData := ClientData (Some (NewClient (client_config r))),
                       ResourceData := ClientData (Some (NewClient (client_config r)))\<rparr>, log)"
    using v by (simp add: r)
next
  let ?ds = "validate get_diags data r (Diagnostics resp)"
  assume b: "host r = [] \<or> client_id r = [] \<or> client_secret r = [] \<or>
    (access_token r = [] \<and> (user_email r = [] \<or> user_password r = []))"
  have h: "host r = [] \<Longrightarrow> reports ?ds missing_summary missing_host_detail"
    by (rule validate_missing_host)
  have i: "client_id r = [] \<Longrightarrow> reports ?ds missing_summary missing_client_id_detail"
    by (rule validate_missing_client_id)
  have s: "client_secret r = [] \<Longrightarrow> reports ?ds missing_summary missing_client_secret_detail"
    by (rule validate_missing_client_secret)
  have c: "access_token r = [] \<and> (user_email r = [] \<or> user_password r = []) \<Longrightarrow>
      reports ?ds missing_summary missing_credentials_detail"
    by (rule validate_missing_credentials) (simp add: no_credentials_def)
  from b h i s c have e: "HasError ?ds"
    using reports_HasError by blast
  then have "Configure get_diags data getenv GetAccountCurrentUser resp =
      Returned (resp\<lparr>Diagnostics := ?ds\<rparr>, [(Debug, ''mastodon_provider configure'')])"
    using Configure_invalid [where GetAccountCurrentUser = GetAccountCurrentUser and get_diags = get_diags and data = data and getenv = getenv and resp = resp] by (simp add: r)
  with e h i s c
  show "\<exists>resp'. Configure get_diags data getenv GetAccountCurrentUser resp =
         Returned (resp', [(Debug, ''mastodon_provider configure'')]) \<and>
       HasError (Diagnostics resp') \<and>
       DataSourceData resp' = DataSourceData resp \<and> ResourceData resp' = ResourceData resp \<and>
       (host r = [] \<longrightarrow> reports (Diagnostics resp') missing_summary missing_host_detail) \<and>
       (client_id r = [] \<longrightarrow>
          reports (Diagnostics resp') missing_summary missing_client_id_detail) \<and>
       (client_secret r = [] \<longrightarrow>
          reports (Diagnostics resp') missing_summary missing_client_secret_detail) \<and>
       (access_token r = [] \<and> (user_email r = [] \<or> user_password r = []) \<longrightarrow>
          reports (Diagnostics resp') missing_summary missing_credentials_detail)"
    by simp
qed

lemmas eval_defs =
  Configure_def validate_def check_defs resolved_def resolve_def client_config_def
  no_credentials_def HasError_def AppendAll_def AddAttributeError_def AddError_def Append_def
  all_known_def missing_summary_def missing_host_detail_def missing_client_id_detail_def
  missing_client_secret_detail_def missing_credentials_detail_def

text \<open>
  Both parts at concrete inputs: the four variables of the acceptance tests set in the
  environment and a server that accepts the token; and nothing set at all, where the
  four errors are reported together.
\<close>

theorem Configure_credentials_witness:
  "Configure [] null_config token_env accepts empty_response =
     Returned (\<lparr>Diagnostics = [],
        DataSourceData = ClientData (Some (NewClient
          \<lparr>Server = ''https://mastodon.example'', Config_ClientID = ''id'',
           Config_ClientSecret = ''secret'', Config_AccessToken = ''token''\<rparr>)),
        ResourceData = ClientData (Some (NewClient
          \<lparr>Server = ''https://mastodon.example'', Config_ClientID = ''id'',
           Config_ClientSecret = ''secret'', Config_AccessToken = ''token''\<rparr>))\<rparr>,
        [(Debug, ''mastodon_provider configure''),
         (Debug, ''mastodon_provider configure with access token''),
         (Debug, ''mastodon_provider current user: user'')]) \<and>
   reports [\<lparr>Severity = SeverityError, Path = Some ''user-access-token'',
              Summary = missing_summary, Detail = missing_host_detail\<rparr>,
            \<lparr>Severity = SeverityError, Path = Some ''user-access-token'',
              Summary = missing_summary, Detail = missing_client_id_detail\<rparr>,
            \<lparr>Severity = SeverityError, Path = Some ''user-access-token'',
              Summary = missing_summary, Detail = missing_client_secret_detail\<rparr>,
            \<lparr>Severity = SeverityError, Path = Some ''user-access-token'',
              Summary = missing_summary, Detail = missing_credentials_detail\<rparr>]
      missing_summary missing_credentials_detail \<and>
   Configure [] null_config unset_env accepts empty_response =
     Returned (\<lparr>Diagnostics =
         [\<lparr>Severity = SeverityError, Path = Some ''user-access-token'',
            Summary = missing_summary, Detail = missing_host_detail\<rparr>,
          \<lparr>Severity = SeverityError, Path = Some ''user-access-token'',
            Summary = missing_summary, Detail = missing_client_id_detail\<rparr>,
          \<lparr>Severity = SeverityError, Path = Some ''user-access-token'',
            Summary = missing_summary, Detail = missing_client_secret_detail\<rparr>,
          \<lparr>Severity = SeverityError, Path = Some ''user-access-token'',
            Summary = missing_summary, Detail = missing_credentials_detail\<rparr>],
        DataSourceData = NilData, ResourceData = NilData\<rparr>,
        [(Debug, ''mastodon_provider configure'')])"
proof -
  have valid:
    "\<not> HasError (Diagnostics empty_response) \<and> \<not> HasError [] \<and> all_known null_config \<and>
     host (resolved null_config token_env) \<noteq> [] \<and>
     client_id (resolved null_config token_env) \<noteq> [] \<and>
     client_secret (resolved null_config token_env) \<noteq> [] \<and>
     (access_token (resolved null_config token_env) \<noteq> [] \<or>
      (user_email (resolved null_config token_env) \<noteq> [] \<and>
       user_password (resolved null_config token_env) \<noteq> [])) \<and>
     accepts (NewClient (client_config (resolved null_config token_env))) = (Some example_user, None)"
    by (simp add: eval_defs null_config_def token_env_def empty_response_def accepts_def)
  have invalid:
    "host (resolved null_config unset_env) = [] \<or>
     client_id (resolved null_config unset_env) = [] \<or>
     client_secret (resolved null_config unset_env) = [] \<or>
     (access_token (resolved null_config unset_env) = [] \<and>
      (user_email (resolved null_config unset_env) = [] \<or>
       user_password (resolved null_config unset_env) = []))"
    by (simp add: eval_defs null_config_def unset_env_def)
  note ok = Configure_credentials [OF refl, where data = null_config and getenv = token_env
      and resp = empty_response and get_diags = "[]" and GetAccountCurrentUser = accepts
      and u = example_user]
  note bad = Configure_credentials [OF refl, where data = null_config and getenv = unset_env
      and resp = empty_response and get_diags = "[]" and GetAccountCurrentUser = accepts
      and u = example_user]
  have "Configure [] null_config token_env accepts empty_response =
     Returned (\<lparr>Diagnostics = [],
        DataSourceData = ClientData (Some (NewClient
          \<lparr>Server = ''https://mastodon.example'', Config_ClientID = ''id'',
           Config_ClientSecret = ''secret'', Config_AccessToken = ''token''\<rparr>)),
        ResourceData = ClientData (Some (NewClient
          \<lparr>Server = ''https://mastodon.example'', Config_ClientID = ''id'',
           Config_ClientSecret = ''secret'', Config_AccessToken = ''token''\<rparr>))\<rparr>,
        [(Debug, ''mastodon_provider configure''),
         (Debug, ''mastodon_provider configure with access token''),
         (Debug, ''mastodon_provider current user: user'')])"
    using ok valid
    by (simp add: eval_defs null_config_def token_env_def empty_response_def
        accepts_def example_user_def Let_def)
  moreover have "Configure [] null_config unset_env accepts empty_response =
     Returned (\<lparr>Diagnostics =
         [\<lparr>Severity = SeverityError, Path = Some ''user-access-token'',
            Summary = missing_summary, Detail = missing_host_detail\<rparr>,
          \<lparr>Severity = SeverityError, Path = Some ''user-access-token'',
            Summary = missing_summary, Detail = missing_client_id_detail\<rparr>,
          \<lparr>Severity = SeverityError, Path = Some ''user-access-token'',
            Summary = missing_summary, Detail = missing_client_secret_detail\<rparr>,
          \<lparr>Severity = SeverityError, Path = Some ''user-access-token'',
            Summary = missing_summary, Detail = missing_credentials_detail\<rparr>],
        DataSourceData = NilData, ResourceData = NilData\<rparr>,
        [(Debug, ''mastodon_provider configure'')])"
    using bad invalid
    by (simp add: eval_defs null_config_def unset_env_def empty_response_def Let_def)
  moreover have "reports [\<lparr>Severity = SeverityError, Path = Some ''user-access-token'',
              Summary = missing_summary, Detail = missing_host_detail\<rparr>,
            \<lparr>Severity = SeverityError, Path = Some ''user-access-token'',
              Summary = missing_summary, Detail = missing_client_id_detail\<rparr>,
            \<lparr>Severity = SeverityError, Path = Some ''user-access-token'',
              Summary = missing_summary, Detail = missing_client_secret_detail\<rparr>,
            \<lparr>Severity = SeverityError, Path = Some ''user-access-token'',
              Summary = missing_summary, Detail = missing_credentials_detail\<rparr>]
      missing_summary missing_credentials_detail"
    by (simp add: reports_def)
  ultimately show ?thesis by simp
qed

text \<open>
  Claim C1 as stated fails. With host, client id, client secret and access token
  resolved from the environment, Configure still fails when the email attribute is
  unknown, and does not succeed when the validating fetch reports an error (go-mastodon
  returns a nil account with the error, and Configure panics). With an empty host the
  diagnostic is attributed to the path \<open>user-access-token\<close>, not to the host.
\<close>

theorem Configure_credentials_counterexample:
  "resolved (null_config\<lparr>Email := StringUnknown\<rparr>) token_env =
     \<lparr>host = ''https://mastodon.example'', client_id = ''id'', client_secret = ''secret'',
      user_email = [], user_password = [], access_token = ''token''\<rparr> \<and>
   Configure [] (null_config\<lparr>Email := StringUnknown\<rparr>) token_env accepts empty_response =
     Returned (\<lparr>Diagnostics =
         [\<lparr>Severity = SeverityError, Path = Some ''user-email'',
            Summary = ''Unknown Mastodon User Email'',
            Detail = unknown_detail ''User Email'' ''MASTODON_USER_EMAIL''\<rparr>],
        DataSourceData = NilData, ResourceData = NilData\<rparr>,
        [(Debug, ''mastodon_provider configure'')]) \<and>
   resolved null_config token_env =
     \<lparr>host = ''https://mastodon.example'', client_id = ''id'', client_secret = ''secret'',
      user_email = [], user_password = [], access_token = ''token''\<rparr> \<and>
   Configure [] null_config token_env rejects empty_response = Panic \<and>
   Configure [] (null_config\<lparr>Host := StringValue []\<rparr>) token_env accepts empty_response =
     Returned (\<lparr>Diagnostics =
         [\<lparr>Severity = SeverityError, Path = Some ''user-access-token'',
            Summary = ''Missing Mastodon Credentials'',
            Detail = ''The provider cannot create the Mastodon API client as the Host is not set.''\<rparr>],
        DataSourceData = NilData, ResourceData = NilData\<rparr>,
        [(Debug, ''mastodon_provider configure'')])"
  by (simp add: eval_defs null_config_def token_env_def empty_response_def accepts_def
      rejects_def Let_def)

text \<open>
  Claim C2. In every execution of Configure that reaches the validating fetch and in
  which the fetch reports an error, Configure does not return before reading the
  \<open>Acct\<close> field of the account: it panics exactly when the account record is nil, and
  with a non-nil record it logs the line built from \<open>Acct\<close> and only then returns,
  with the error of the fetch reported and no client stored.
\<close>

theorem Configure_fetch_error_reads_Acct:
  assumes "\<not> HasError (validate get_diags data (resolved data getenv) (Diagnostics resp))"
    and "GetAccountCurrentUser (NewClient (client_config (resolved data getenv))) = (user, Some e)"
  shows
  "(Configure get_diags data getenv GetAccountCurrentUser resp = Panic \<longleftrightarrow> user = None) \<and>
   (\<forall>u. user = Some u \<longrightarrow>
      (\<exists>resp' log. Configure get_diags data getenv GetAccountCurrentUser resp = Returned (resp', log) \<and>
         (Debug, ''mastodon_provider current user: '' @ Acct u) \<in> set log \<and>
         reports (Diagnostics resp')
           ''Mastodon GetAccountCurrentUser Failed, API is not usable.'' e \<and>
         DataSourceData resp' = DataSourceData resp \<and> ResourceData resp' = ResourceData resp))"
proof (cases user)
  case None
  with assms show ?thesis
    by (simp add: Configure_fetch_failed_nil)
next
  case (Some u)
  with assms have "Configure get_diags data getenv GetAccountCurrentUser resp =
     Returned (resp\<lparr>Diagnostics :=
                  AddError (validate get_diags data (resolved data getenv) (Diagnostics resp))
                    ''Mastodon GetAccountCurrentUser Failed, API is not usable.'' e\<rparr>,
               configure_log (resolved data getenv)
               @ [(LogError, ''GetAccountCurrentUser Error: '' @ e),
                  (Debug, ''mastodon_provider current user: '' @ Acct u)])"
    by (simp add: Configure_fetch_failed_account)
  with Some show ?thesis
    by (simp add: reports_AddError)
qed

text \<open>
  The two cases at a concrete input: the fetch fails with a nil account, and with a
  non-nil one.
\<close>

theorem Configure_fetch_error_reads_Acct_witness:
  "\<not> HasError (validate [] null_config (resolved null_config token_env) (Diagnostics empty_response)) \<and>
   Configure [] null_config token_env rejects empty_response = Panic \<and>
   Configure [] null_config token_env rejects_with_account empty_response =
     Returned (\<lparr>Diagnostics =
         [\<lparr>Severity = SeverityError, Path = None,
            Summary = ''Mastodon GetAccountCurrentUser Failed, API is not usable.'',
            Detail = ''bad authorization: 401 Unauthorized''\<rparr>],
        DataSourceData = NilData, ResourceData = NilData\<rparr>,
        [(Debug, ''mastodon_provider configure''),
         (Debug, ''mastodon_provider configure with access token''),
         (LogError, ''GetAccountCurrentUser Error: bad authorization: 401 Unauthorized''),
         (Debug, ''mastodon_provider current user: user'')])"
proof -
  have v: "\<not> HasError (validate [] null_config (resolved null_config token_env)
              (Diagnostics empty_response))"
    by (simp add: eval_defs null_config_def token_env_def empty_response_def)
  have f: "rejects (NewClient (client_config (resolved null_config token_env))) =
      (None, Some ''bad authorization: 401 Unauthorized'')"
    by (simp add: rejects_def)
  have g: "rejects_with_account (NewClient (client_config (resolved null_config token_env))) =
      (Some example_user, Some ''bad authorization: 401 Unauthorized'')"
    by (simp add: rejects_with_account_def)
  from Configure_fetch_error_reads_Acct [where GetAccountCurrentUser = rejects, OF v f]
    Configure_fetch_error_reads_Acct [where GetAccountCurrentUser = rejects_with_account, OF v g] v
  show ?thesis
    by (simp add: eval_defs null_config_def token_env_def empty_response_def rejects_def
        rejects_with_account_def example_user_def Let_def)
qed

lemma resolve_cases:
  "resolve e StringNull = e" "resolve e StringUnknown = []" "resolve e (StringValue s) = s"
  by (simp_all add: resolve_def)

text \<open>
  Claim C9. For each of the six configuration fields (host, client_id, client_secret,
  email, password, access_token) the resolved value is the configuration value
  (\<open>ValueString\<close> of the attribute) whenever the attribute is not null, and the value of
  the corresponding environment variable when it is null: configuration takes
  precedence over the environment.
\<close>

theorem resolved_precedence:
  "(\<not> String_IsNull (Host data) \<longrightarrow> host (resolved data getenv) = ValueString (Host data)) \<and>
   (String_IsNull (Host data) \<longrightarrow> host (resolved data getenv) = getenv ''MASTODON_HOST'') \<and>
   (\<not> String_IsNull (ClientID data) \<longrightarrow>
      client_id (resolved data getenv) = ValueString (ClientID data)) \<and>
   (String_IsNull (ClientID data) \<longrightarrow>
      client_id (resolved data getenv) = getenv ''MASTODON_CLIENT_ID'') \<and>
   (\<not> String_IsNull (ClientSecret data) \<longrightarrow>
      client_secret (resolved data getenv) = ValueString (ClientSecret data)) \<and>
   (String_IsNull (ClientSecret data) \<longrightarrow>
      client_secret (resolved data getenv) = getenv ''MASTODON_CLIENT_SECRET'') \<and>
   (\<not> String_IsNull (Email data) \<longrightarrow>
      user_email (resolved data getenv) = ValueString (Email data)) \<and>
   (String_IsNull (Email data) \<longrightarrow>
      user_email (resolved data getenv) = getenv ''MASTODON_USER_EMAIL'') \<and>
   (\<not> String_IsNull (Password data) \<longrightarrow>
      user_password (resolved data getenv) = ValueString (Password data)) \<and>
   (String_IsNull (Password data) \<longrightarrow>
      user_password (resolved data getenv) = getenv ''MASTODON_USER_PASSWORD'') \<and>
   (\<not> String_IsNull (AccessToken data) \<longrightarrow>
      access_token (resolved data getenv) = ValueString (AccessToken data)) \<and>
   (String_IsNull (AccessToken data) \<longrightarrow>
      access_token (resolved data getenv) = getenv ''MASTODON_ACCESS_TOKEN'')"
  by (simp add: resolved_def resolve_def)

text \<open>
  The precedence at a concrete input: the host is set in the configuration and in the
  environment, the access token in the environment only.
\<close>

theorem resolved_precedence_witness:
  "\<not> String_IsNull (Host (null_config\<lparr>Host := StringValue ''cfg.example''\<rparr>)) \<and>
   host (resolved (null_config\<lparr>Host := StringValue ''cfg.example''\<rparr>) token_env) = ''cfg.example'' \<and>
   String_IsNull (AccessToken (null_config\<lparr>Host := StringValue ''cfg.example''\<rparr>)) \<and>
   access_token (resolved (null_config\<lparr>Host := StringValue ''cfg.example''\<rparr>) token_env) = ''token''"
  using resolved_precedence [of "null_config\<lparr>Host := StringValue ''cfg.example''\<rparr>" token_env]
  by (simp add: null_config_def token_env_def)

text \<open>
  Claim C10. For every username and server the identity function sets its result to
  the concatenation of \<open>@\<close>, the username, \<open>@\<close> and the server, with no error; when the
  framework reports an argument error, that error is returned and the result is left
  as it was.
\<close>

theorem Run_identity:
  "Run None username server resp =
     resp\<lparr>Error := None, Result := StringValue (''@'' @ username @ ''@'' @ server)\<rparr> \<and>
   Run (Some e) username server resp = resp\<lparr>Error := Some e\<rparr>"
  by (simp add: Run_def)

lemma AccountDataSource_Read_error:
  assumes "\<not> HasError (AppendAll (Diagnostics resp) get_diags)"
    and "AccountLookup (ValueString (Username data)) = (a, Some e)"
  shows "AccountDataSource_Read get_diags data AccountLookup resp =
     Returned (resp\<lparr>Diagnostics := AddError (AppendAll (Diagnostics resp) get_diags)
        ''Failed to lookup account'' (''Failed to lookup account: '' @ e)\<rparr>)"
  using assms by (simp add: AccountDataSource_Read_def Let_def split: option.splits)

lemma AccountDataSource_Read_found:
  assumes "\<not> HasError (AppendAll (Diagnostics resp) get_diags)"
    and "AccountLookup (ValueString (Username data)) = (Some account, None)"
  shows "AccountDataSource_Read get_diags data AccountLookup resp =
     Returned (resp\<lparr>Diagnostics := AppendAll (Diagnostics resp) get_diags,
        State := Some \<lparr>Username = Username data,
          AccountModel_Id = StringValue (Account_ID account),
          DisplayName = StringValue (Account_DisplayName account),
          Note = StringValue (Account_Note account),
          Locked = BoolValue (Account_Locked account),
          Bot = BoolValue (Account_Bot account)\<rparr>\<rparr>)"
  using assms by (simp add: AccountDataSource_Read_def Let_def)

text \<open>
  Claim C8. For every Read of the account data source that reaches the remote lookup:
  when the lookup reports an error, Read reports the failure
  \<open>Failed to lookup account\<close> with the text of the error and the state of the response
  is the one handed in; when the lookup succeeds, the state written holds the username
  of the configuration and the five computed fields (id, display_name, note, locked,
  bot) taken from the remote record, whatever the fields decoded from the configuration
  and the state handed in held before.
\<close>

theorem AccountDataSource_Read_frame:
  assumes "\<not> HasError (AppendAll (Diagnostics resp) get_diags)"
  shows
  "(\<forall>a e. AccountLookup (ValueString (Username data)) = (a, Some e) \<longrightarrow>
      (\<exists>resp'. AccountDataSource_Read get_diags data AccountLookup resp = Returned resp' \<and>
         State resp' = State resp \<and>
         reports (Diagnostics resp') ''Failed to lookup account''
           (''Failed to lookup account: '' @ e))) \<and>
   (\<forall>account. AccountLookup (ValueString (Username data)) = (Some account, None) \<longrightarrow>
      AccountDataSource_Read get_diags data AccountLookup resp =
        Returned (resp\<lparr>Diagnostics := AppendAll (Diagnostics resp) get_diags,
          State := Some \<lparr>Username = Username data,
            AccountModel_Id = StringValue (Account_ID account),
            DisplayName = StringValue (Account_DisplayName account),
            Note = StringValue (Account_Note account),
            Locked = BoolValue (Account_Locked account),
            Bot = BoolValue (Account_Bot account)\<rparr>\<rparr>))"
  using assms
  by (simp add: AccountDataSource_Read_error AccountDataSource_Read_found reports_AddError)

text \<open>
  Both cases at a concrete input: a lookup that fails, and a lookup that succeeds over
  a model whose computed fields already hold other values.
\<close>

theorem AccountDataSource_Read_frame_witness:
  "\<not> HasError (AppendAll (Diagnostics no_state) []) \<and>
   AccountDataSource_Read [] example_account_data lookup_fails no_state =
     Returned \<lparr>Diagnostics =
         [\<lparr>Severity = SeverityError, Path = None, Summary = ''Failed to lookup account'',
            Detail = ''Failed to lookup account: bad request: 404 Not Found''\<rparr>],
       State = None\<rparr> \<and>
   AccountDataSource_Read [] (example_account_data\<lparr>Bot := BoolValue True, Note := StringValue ''old''\<rparr>)
       finds_person no_state =
     Returned \<lparr>Diagnostics = [],
       State = Some \<lparr>Username = StringValue ''user@host'', AccountModel_Id = StringValue ''2'',
         DisplayName = StringValue ''A Person'', Note = StringValue ''hello'',
         Locked = BoolValue False, Bot = BoolValue False\<rparr>\<rparr>"
proof -
  have h: "\<not> HasError (AppendAll (Diagnostics no_state) [])"
    by (simp add: no_state_def AppendAll_def HasError_def)
  from AccountDataSource_Read_frame [OF h, where data = example_account_data
      and AccountLookup = lookup_fails]
    AccountDataSource_Read_frame [OF h, where AccountLookup = finds_person
      and data = "example_account_data\<lparr>Bot := BoolValue True, Note := StringValue ''old''\<rparr>"]
    h
  show ?thesis
    by (simp add: AccountDataSource_Read_def Let_def no_state_def AppendAll_def HasError_def
        AddError_def Append_def example_account_data_def lookup_fails_def finds_person_def
        example_person_def)
qed

text \<open>
  Claim C6, as amended. For a Read of the account data source with the username
  \<open>user@host\<close> where the remote record has bot equal to false, the bot output of the
  resulting state is false; the locked flag of the remote record decides the locked
  output only.
\<close>

theorem AccountDataSource_Read_bot:
  assumes "\<not> HasError (AppendAll (Diagnostics resp) get_diags)"
    and "Username data = StringValue ''user@host''"
    and "AccountLookup ''user@host'' = (Some account, None)"
    and "Account_Bot account = False"
  shows "map_option Bot (state_of (AccountDataSource_Read get_diags data AccountLookup resp)) =
           Some (BoolValue False) \<and>
         map_option Locked (state_of (AccountDataSource_Read get_diags data AccountLookup resp)) =
           Some (BoolValue (Account_Locked account))"
  using assms AccountDataSource_Read_found [of resp get_diags AccountLookup data account]
  by (simp add: state_of_def)

text \<open>The amended claim at a remote record that is not a bot.\<close>

theorem AccountDataSource_Read_bot_witness:
  "Account_Bot example_person = False \<and>
   map_option Bot (state_of (AccountDataSource_Read [] example_account_data finds_person no_state)) =
     Some (BoolValue False)"
proof -
  have h: "\<not> HasError (AppendAll (Diagnostics no_state) [])"
    by (simp add: no_state_def AppendAll_def HasError_def)
  have u: "Username example_account_data = StringValue ''user@host''"
    by (simp add: example_account_data_def)
  have f: "finds_person ''user@host'' = (Some example_person, None)"
    by (simp add: finds_person_def)
  have b: "Account_Bot example_person = False"
    by (simp add: example_person_def)
  from AccountDataSource_Read_bot [where AccountLookup = finds_person, OF h u f b] b
  show ?thesis by simp
qed

text \<open>
  Claim C6 as stated fails: for the username \<open>user@host\<close> and a remote record whose
  locked flag is false and whose bot flag is true, the bot output is true.
\<close>

theorem AccountDataSource_Read_bot_counterexample:
  "Username example_account_data = StringValue ''user@host'' \<and>
   finds_unlocked_bot ''user@host'' = (Some example_user, None) \<and>
   Account_Locked example_user = False \<and>
   AccountDataSource_Read [] example_account_data finds_unlocked_bot no_state =
     Returned \<lparr>Diagnostics = [],
       State = Some \<lparr>Username = StringValue ''user@host'', AccountModel_Id = StringValue ''1'',
         DisplayName = StringValue ''User'', Note = StringValue [],
         Locked = BoolValue False, Bot = BoolValue True\<rparr>\<rparr> \<and>
   map_option Bot (state_of (AccountDataSource_Read [] example_account_data finds_unlocked_bot no_state))
     \<noteq> Some (BoolValue False)"
  by (simp add: state_of_def AccountDataSource_Read_def Let_def no_state_def AppendAll_def HasError_def
      example_account_data_def finds_unlocked_bot_def example_user_def)

text \<open>
  Claim C7, as amended. For both adapters: when the provider data handed to Configure
  is absent (nil), Configure returns without any diagnostic and leaves the adapter as
  it was; when it is a value of an unexpected type, Configure reports the error
  \<open>Unexpected ... Configure Type\<close>, whose detail names the type received and asks to
  report the issue to the provider developers, and leaves the adapter as it was.
\<close>

theorem adapter_Configure_provider_data:
  "AccountDataSource_Configure d NilData resp = (d, resp) \<and>
   PostResource_Configure r NilData resp = (r, resp) \<and>
   fst (AccountDataSource_Configure d (OtherData ty) resp) = d \<and>
   reports (Diagnostics (snd (AccountDataSource_Configure d (OtherData ty) resp)))
     ''Unexpected Data Source Configure Type''
     (''Expected *mastodon.Client, got: '' @ ty
      @ ''. Please report this issue to the provider developers.'') \<and>
   fst (PostResource_Configure r (OtherData ty) resp) = r \<and>
   reports (Diagnostics (snd (PostResource_Configure r (OtherData ty) resp)))
     ''Unexpected Resource Configure Type''
     (''Expected *mastodon.Client, got: '' @ ty
      @ ''. Please report this issue to the provider developers.'')"
  by (simp add: AccountDataSource_Configure_def PostResource_Configure_def reports_AddError)

text \<open>
  Claim C7 as stated fails for an absent client: with nil provider data neither adapter
  reports a diagnostic.
\<close>

theorem adapter_Configure_provider_data_counterexample:
  "AccountDataSource_Configure \<lparr>AccountDataSource_client = None\<rparr> NilData \<lparr>Diagnostics = []\<rparr> =
     (\<lparr>AccountDataSource_client = None\<rparr>, \<lparr>Diagnostics = []\<rparr>) \<and>
   PostResource_Configure \<lparr>PostResource_client = None\<rparr> NilData \<lparr>Diagnostics = []\<rparr> =
     (\<lparr>PostResource_client = None\<rparr>, \<lparr>Diagnostics = []\<rparr>) \<and>
   \<not> HasError []"
  by (simp add: AccountDataSource_Configure_def PostResource_Configure_def HasError_def)

text \<open>
  Claim C4. For every post state that decodes without error: Delete with
  \<open>preserve_on_destroy\<close> true makes no remote delete call and reports no error; Delete
  with \<open>preserve_on_destroy\<close> false (or unset) makes exactly one remote delete call, for
  the stored identifier, and reports an error exactly when that call fails.
\<close>

theorem Delete_preserve_on_destroy:
  assumes "\<not> HasError (AppendAll (Diagnostics resp) get_diags)"
  shows
  "(ValueBool (PreserveOnDestroy data) \<longrightarrow>
      snd (Delete get_diags data DeleteStatus resp) = [] \<and>
      \<not> HasError (Diagnostics (fst (Delete get_diags data DeleteStatus resp)))) \<and>
   (\<not> ValueBool (PreserveOnDestroy data) \<longrightarrow>
      snd (Delete get_diags data DeleteStatus resp) = [ValueString (PostModel_Id data)] \<and>
      (HasError (Diagnostics (fst (Delete get_diags data DeleteStatus resp))) \<longleftrightarrow>
         DeleteStatus (ValueString (PostModel_Id data)) \<noteq> None))"
  using assms
  by (auto simp: Delete_def Let_def HasError_AddError split: option.splits)

text \<open>
  The three cases at a concrete state: preserved (the remote call would have failed),
  deleted, and a delete call that fails.
\<close>

theorem Delete_preserve_on_destroy_witness:
  "\<not> HasError (AppendAll (Diagnostics prior_state) []) \<and>
   Delete [] (example_post_state\<lparr>PreserveOnDestroy := BoolValue True\<rparr>) delete_fails prior_state =
     (prior_state, []) \<and>
   Delete [] example_post_state delete_succeeds prior_state = (prior_state, [''110'']) \<and>
   Delete [] example_post_state delete_fails prior_state =
     (prior_state\<lparr>Diagnostics :=
        [\<lparr>Severity = SeverityError, Path = None, Summary = ''Client Error'',
           Detail = ''Unable to delete post, got error: bad request: 403 Forbidden''\<rparr>]\<rparr>,
      [''110''])"
proof -
  have h: "\<not> HasError (AppendAll (Diagnostics prior_state) [])"
    by (simp add: prior_state_def AppendAll_def HasError_def)
  from Delete_preserve_on_destroy [OF h, where DeleteStatus = delete_fails
      and data = "example_post_state\<lparr>PreserveOnDestroy := BoolValue True\<rparr>"]
    Delete_preserve_on_destroy [OF h, where DeleteStatus = delete_succeeds
      and data = example_post_state] h
  show ?thesis
    by (simp add: Delete_def Let_def prior_state_def AppendAll_def HasError_def AddError_def
        Append_def example_post_state_def delete_fails_def delete_succeeds_def)
qed

lemma Read_error:
  assumes "\<not> HasError (AppendAll (Diagnostics resp) get_diags)"
    and "GetStatus (ValueString (PostModel_Id data)) = (post, Some e)"
  shows "Read Sanitize get_diags data GetStatus resp =
     Returned (resp\<lparr>Diagnostics := AddError (AppendAll (Diagnostics resp) get_diags)
        ''Client Error'' (''Unable to read post, got error: '' @ e)\<rparr>)"
  using assms by (simp add: Read_def Let_def split: option.splits)

lemma Read_undecoded:
  assumes "HasError (AppendAll (Diagnostics resp) get_diags)"
  shows "Read Sanitize get_diags data GetStatus resp =
     Returned (resp\<lparr>Diagnostics := AppendAll (Diagnostics resp) get_diags\<rparr>)"
  using assms by (simp add: Read_def Let_def)

text \<open>
  Claim C5. For every stored post state and every error returned by the remote fetch
  of the status, a not-found response included, Read returns with an error and the
  state of its response is the prior state: it is never removed or cleared. When the
  fetch is reached, the error reported is \<open>Client Error\<close> with the detail
  \<open>Unable to read post, got error:\<close> followed by the text of the error.
\<close>

theorem Read_error_keeps_state:
  assumes "GetStatus (ValueString (PostModel_Id data)) = (post, Some e)"
  shows
  "state_of (Read Sanitize get_diags data GetStatus resp) = State resp \<and>
   (\<exists>resp'. Read Sanitize get_diags data GetStatus resp = Returned resp' \<and>
      HasError (Diagnostics resp') \<and>
      (\<not> HasError (AppendAll (Diagnostics resp) get_diags) \<longrightarrow>
         reports (Diagnostics resp') ''Client Error'' (''Unable to read post, got error: '' @ e)))"
proof (cases "HasError (AppendAll (Diagnostics resp) get_diags)")
  case True
  then show ?thesis
    by (simp add: Read_undecoded state_of_def)
next
  case False
  then show ?thesis
    using assms by (simp add: Read_error state_of_def HasError_AddError reports_AddError)
qed

text \<open>A stored post whose fetch answers not found: the state stays.\<close>

theorem Read_error_keeps_state_witness:
  "status_not_found (ValueString (PostModel_Id example_post_state)) =
     (None, Some ''bad request: 404 Not Found'') \<and>
   Read id [] example_post_state status_not_found prior_state =
     Returned \<lparr>Diagnostics =
         [\<lparr>Severity = SeverityError, Path = None, Summary = ''Client Error'',
            Detail = ''Unable to read post, got error: bad request: 404 Not Found''\<rparr>],
       State = Some example_post_state\<rparr>"
proof -
  have f: "status_not_found (ValueString (PostModel_Id example_post_state)) =
     (None, Some ''bad request: 404 Not Found'')"
    by (simp add: status_not_found_def)
  from Read_error_keeps_state [where GetStatus = status_not_found, OF f] f
  show ?thesis
    by (simp add: Read_def Let_def prior_state_def AppendAll_def HasError_def AddError_def
        Append_def status_not_found_def)
qed

lemma Content_store_post:
  "Content (store_post Sanitize post data) = StringValue (Sanitize (Status_Content post))"
  by (simp add: store_post_def)

text \<open>
  Create, Read and Update store as content the sanitizer applied to the content of the
  status the server returned, for every sanitizer: the same function in the three
  operations, applied once to the server's content, never to the stored state.
\<close>

theorem post_content_sanitized:
  assumes "\<not> HasError (AppendAll (Diagnostics resp) get_diags)"
  shows
  "(PostStatus (toot_of data) = (Some post, None) \<longrightarrow>
      map_option Content (state_of (Create Sanitize get_diags data PostStatus resp)) =
        Some (StringValue (Sanitize (Status_Content post)))) \<and>
   (GetStatus (ValueString (PostModel_Id data)) = (Some post, None) \<longrightarrow>
      map_option Content (state_of (Read Sanitize get_diags data GetStatus resp)) =
        Some (StringValue (Sanitize (Status_Content post)))) \<and>
   (UpdateStatus (toot_of data) (ValueString (PostModel_Id data)) = (Some post, None) \<longrightarrow>
      map_option Content (state_of (Update Sanitize get_diags data UpdateStatus resp)) =
        Some (StringValue (Sanitize (Status_Content post))))"
  using assms
  by (simp add: Create_def Read_def Update_def Let_def state_of_def Content_store_post)

text \<open>
  At a concrete input, with list reversal standing in for the sanitizer so that its
  application shows in the result.
\<close>

theorem post_content_sanitized_witness:
  "map_option Content (state_of (Create rev [] example_post_state echo_post prior_state)) =
     Some (StringValue ''tsoP tseT tsriF'')"
proof -
  have h: "\<not> HasError (AppendAll (Diagnostics prior_state) [])"
    by (simp add: prior_state_def AppendAll_def HasError_def)
  from post_content_sanitized [OF h, where PostStatus = echo_post and data = example_post_state
      and Sanitize = rev and post = "example_status ''First Test Post''"]
  show ?thesis
    by (simp add: echo_post_def toot_of_def example_post_state_def example_status_def)
qed

end
